theory Spec2Isabelle
  imports Main
begin

section \<open>The grid generator of \<^verbatim>\<open>generate.py\<close>\<close>

text \<open>
  The script has one function, \<^verbatim>\<open>main\<close>, run by the interpreter when the file is
  executed. It reads \<^verbatim>\<open>sys.argv\<close>, asks NumPy for a random grid, joins the grid
  into a string and writes the string to \<^verbatim>\<open>./life.txt\<close>. Everything \<^verbatim>\<open>main\<close> does
  beyond computing is explicit here: the file system, the open handles and the two
  output streams are fields of \<open>world\<close>, an exception or a call of \<^verbatim>\<open>exit\<close> is an
  \<open>outcome\<close>.
\<close>

subsection \<open>Values, exceptions, outcomes\<close>

text \<open>
  The values that reach the \<^verbatim>\<open>size\<close> argument of \<^verbatim>\<open>np.random.choice\<close>: a Python
  \<^verbatim>\<open>str\<close> or a Python \<^verbatim>\<open>int\<close>.
\<close>

datatype pyval = PyStr string | PyInt int

datatype py_error = ValueError | TypeError | OSError

text \<open>
  How a call of \<^verbatim>\<open>main\<close> ends: it returns, \<^verbatim>\<open>exit(n)\<close> was called, or an
  exception left it unhandled.
\<close>

datatype outcome = Returned | SystemExit nat | Raised py_error

subsection \<open>The world outside the process\<close>

text \<open>
  \<open>files\<close> maps a path to the contents of the file there; \<open>handles\<close> lists the paths
  of the file objects that are open; \<open>stdout\<close> and \<open>stderr\<close> hold the lines printed.
  \<open>open_ok\<close> and \<open>write_ok\<close> are the environment's answer to an attempt to open a path
  for writing and to write to it (a read-only directory, a full disk): where the
  answer is no, Python raises \<^verbatim>\<open>OSError\<close>.
\<close>

record world =
  files :: "string \<rightharpoonup> string"
  handles :: "string list"
  stdout :: "string list"
  stderr :: "string list"
  open_ok :: "string \<Rightarrow> bool"
  write_ok :: "string \<Rightarrow> bool"

text \<open>
  The process-wide random source. \<^verbatim>\<open>np.random.choice(a, size, p=[0.05, 0.95])\<close> draws
  one uniform sample per cell, in row-major order, and picks \<^verbatim>\<open>a[0]\<close> when the sample
  is below \<^verbatim>\<open>p[0]\<close> and \<^verbatim>\<open>a[1]\<close> otherwise. \<open>rng k\<close> says whether the \<open>k\<close>-th sample is
  below \<^verbatim>\<open>p[0]\<close>; the model takes the stream as given and says nothing about its
  distribution.
\<close>

type_synonym rng = "nat \<Rightarrow> bool"

subsection \<open>Library operations\<close>

text \<open>\<^verbatim>\<open>sep.join(xs)\<close> of Python's \<^verbatim>\<open>str\<close>.\<close>

fun py_join :: "string \<Rightarrow> string list \<Rightarrow> string" where
  "py_join sep [] = []"
| "py_join sep [x] = x"
| "py_join sep (x # y # ys) = x @ sep @ py_join sep (y # ys)"

text \<open>
  \<^verbatim>\<open>a, b = xs\<close>: unpacking into two targets raises \<^verbatim>\<open>ValueError\<close> unless \<open>xs\<close> has
  exactly two elements.
\<close>

definition unpack2 :: "'a list \<Rightarrow> py_error + ('a \<times> 'a)" where
  "unpack2 xs = (case xs of [a, b] \<Rightarrow> Inr (a, b) | _ \<Rightarrow> Inl ValueError)"

text \<open>
  \<^verbatim>\<open>np.random.choice(a, size=(rows, cols), p=...)\<close> with a two-element population \<open>a\<close>.
  NumPy takes a shape of integers: a \<^verbatim>\<open>str\<close> in the shape is a \<^verbatim>\<open>TypeError\<close>
  (whatever the string spells, NumPy does not parse it), a negative integer is a
  \<^verbatim>\<open>ValueError\<close>. Otherwise the result is the \<open>rows \<times> cols\<close> array whose cell
  \<open>(i, j)\<close> is chosen by sample \<open>i * cols + j\<close>.
\<close>

definition random_choice :: "rng \<Rightarrow> string list \<Rightarrow> pyval \<Rightarrow> pyval \<Rightarrow> py_error + string list list" where
  "random_choice g a rows cols =
     (case (rows, cols) of
        (PyInt r, PyInt c) \<Rightarrow>
          if r < 0 \<or> c < 0 then Inl ValueError
          else Inr (map (\<lambda>i. map (\<lambda>j. a ! (if g (i * nat c + j) then 0 else 1)) [0..<nat c])
                        [0..<nat r])
      | _ \<Rightarrow> Inl TypeError)"

text \<open>\<^verbatim>\<open>print(s)\<close>.\<close>

definition py_print :: "string \<Rightarrow> world \<Rightarrow> world" where
  "py_print s w = w\<lparr>stdout := stdout w @ [s]\<rparr>"

text \<open>
  \<^verbatim>\<open>open(path, 'w')\<close>: raises \<^verbatim>\<open>OSError\<close> where the environment refuses; otherwise
  the file is created or truncated and a handle on it is open.
\<close>

definition py_open_w :: "string \<Rightarrow> world \<Rightarrow> py_error + world" where
  "py_open_w path w =
     (if open_ok w path
      then Inr (w\<lparr>files := (files w)(path \<mapsto> []), handles := path # handles w\<rparr>)
      else Inl OSError)"

text \<open>\<^verbatim>\<open>file.write(s)\<close> on the handle of \<open>path\<close>: appends, or raises \<^verbatim>\<open>OSError\<close>.\<close>

definition py_write :: "string \<Rightarrow> string \<Rightarrow> world \<Rightarrow> outcome \<times> world" where
  "py_write path s w =
     (if write_ok w path
      then (Returned, w\<lparr>files := (files w)(path \<mapsto> (case files w path of None \<Rightarrow> s | Some old \<Rightarrow> old @ s))\<rparr>)
      else (Raised OSError, w))"

text \<open>\<^verbatim>\<open>file.close()\<close>.\<close>

definition py_close :: "string \<Rightarrow> world \<Rightarrow> world" where
  "py_close path w = w\<lparr>handles := remove1 path (handles w)\<rparr>"

text \<open>
  \<^verbatim>\<open>with open(path, 'w') as file: body\<close>. When \<^verbatim>\<open>open\<close> raises, the body does not run
  and there is no handle. Otherwise the body runs and the file is closed when it is
  left, whether it returned or raised; what it raised goes on.
\<close>

definition with_open_w :: "string \<Rightarrow> (string \<Rightarrow> world \<Rightarrow> outcome \<times> world) \<Rightarrow> world \<Rightarrow> outcome \<times> world" where
  "with_open_w path body w =
     (case py_open_w path w of
        Inl e \<Rightarrow> (Raised e, w)
      | Inr w1 \<Rightarrow> (case body path w1 of (out, w2) \<Rightarrow> (out, py_close path w2)))"

subsection \<open>\<^verbatim>\<open>main\<close>\<close>

definition usage :: string where
  "usage = ''Usage: ./generate [ROWS] [COLUMNS]''"

definition file_path :: string where
  "file_path = ''./life.txt''"

definition population :: "string list" where
  "population = [''*'', '' '']"

definition newline :: char where
  "newline = CHR 0x0A"

text \<open>Line 31: \<^verbatim>\<open>'\n'.join(''.join(row) for row in grid)\<close>.\<close>

definition grid_str :: "string list list \<Rightarrow> string" where
  "grid_str grid = py_join [newline] (map (py_join []) grid)"

text \<open>Lines 31 to 34: what \<^verbatim>\<open>main\<close> does with the grid once it has one.\<close>

definition write_output :: "string list list \<Rightarrow> world \<Rightarrow> outcome \<times> world" where
  "write_output grid w = with_open_w file_path (\<lambda>file. py_write file (grid_str grid)) w"

text \<open>
  \<^verbatim>\<open>main\<close>, line by line: the guard on \<^verbatim>\<open>len(sys.argv)\<close>, the unpacking of
  \<^verbatim>\<open>sys.argv[1:]\<close>, the call of \<^verbatim>\<open>np.random.choice\<close> with the two argument strings as
  they are, and the write.
\<close>

definition main :: "rng \<Rightarrow> string list \<Rightarrow> world \<Rightarrow> outcome \<times> world" where
  "main g argv w =
     (if length argv > 4 then (SystemExit 1, py_print usage w)
      else case unpack2 (drop 1 argv) of
        Inl e \<Rightarrow> (Raised e, w)
      | Inr (rows, cols) \<Rightarrow>
          (case random_choice g population (PyStr rows) (PyStr cols) of
             Inl e \<Rightarrow> (Raised e, w)
           | Inr grid \<Rightarrow> write_output grid w))"

text \<open>
  The interpreter around \<^verbatim>\<open>main\<close>: the exit status is 0 when \<^verbatim>\<open>main\<close> returns and
  \<open>n\<close> after \<^verbatim>\<open>exit(n)\<close>; an unhandled exception is reported on standard error and
  the status is 1.
\<close>

definition traceback :: "py_error \<Rightarrow> string" where
  "traceback e = ''Traceback (most recent call last): '' @
     (case e of ValueError \<Rightarrow> ''ValueError'' | TypeError \<Rightarrow> ''TypeError'' | OSError \<Rightarrow> ''OSError'')"

definition interp_exit :: "outcome \<times> world \<Rightarrow> nat \<times> world" where
  "interp_exit r =
     (case r of
        (Returned, w) \<Rightarrow> (0, w)
      | (SystemExit n, w) \<Rightarrow> (n, w)
      | (Raised e, w) \<Rightarrow> (1, w\<lparr>stderr := stderr w @ [traceback e]\<rparr>))"

definition run_script :: "rng \<Rightarrow> string list \<Rightarrow> world \<Rightarrow> nat \<times> world" where
  "run_script g argv w = interp_exit (main g argv w)"

subsection \<open>Reading the output back\<close>

text \<open>
  \<^verbatim>\<open>s.split('\n')\<close>: the pieces of \<open>s\<close> between newlines. A string that ends with a
  newline has an empty last piece.
\<close>

fun split_nl :: "string \<Rightarrow> string list" where
  "split_nl [] = [[]]"
| "split_nl (x # xs) =
     (if x = newline then [] # split_nl xs
      else (case split_nl xs of [] \<Rightarrow> [[x]] | l # ls \<Rightarrow> (x # l) # ls))"

text \<open>
  The character a cell shows in the file: the one character of \<^verbatim>\<open>population[0]\<close>
  for a cell whose draw picked index 0 (an ALIVE cell), that of \<^verbatim>\<open>population[1]\<close>
  otherwise (a DEAD cell).
\<close>

definition cell_char :: "bool \<Rightarrow> char" where
  "cell_char alive = hd (population ! (if alive then 0 else 1))"


text \<open>A world and a random source to run the script in.\<close>

definition world0 :: world where
  "world0 = \<lparr>files = Map.empty, handles = [], stdout = [], stderr = [],
             open_ok = (\<lambda>_. True), write_ok = (\<lambda>_. True)\<rparr>"

definition rng0 :: rng where
  "rng0 k = (k = 4)"

section \<open>Facts about the library operations\<close>

lemma unpack2_not_two: "length xs \<noteq> 2 \<Longrightarrow> unpack2 xs = Inl ValueError"
  by (auto simp: unpack2_def split: list.splits)

lemma py_join_empty_sep: "py_join [] xs = concat xs"
  by (induction "[] :: string" xs rule: py_join.induct) simp_all

lemma py_join_last:
  "ls \<noteq> [] \<Longrightarrow> last ls \<noteq> [] \<Longrightarrow>
   py_join sep ls \<noteq> [] \<and> last (py_join sep ls) = last (last ls)"
  by (induction sep ls rule: py_join.induct) auto

lemma split_nl_not_Nil: "split_nl s \<noteq> []"
  by (induction s) (auto split: list.splits)

lemma split_nl_line: "newline \<notin> set l \<Longrightarrow> split_nl l = [l]"
  by (induction l) auto

lemma split_nl_append:
  "newline \<notin> set l \<Longrightarrow> split_nl (l @ newline # rest) = l # split_nl rest"
  by (induction l) auto

text \<open>Splitting undoes joining, as long as no piece holds a newline of its own.\<close>

lemma split_nl_py_join:
  "ls \<noteq> [] \<Longrightarrow> \<forall>l \<in> set ls. newline \<notin> set l \<Longrightarrow> split_nl (py_join [newline] ls) = ls"
proof (induction "[newline]" ls rule: py_join.induct)
  case 1
  then show ?case by simp
next
  case (2 x)
  then show ?case by (simp add: split_nl_line)
next
  case (3 x y ys)
  then show ?case by (simp add: split_nl_append)
qed

lemma count_newlines: "length (filter (\<lambda>x. x = newline) s) = length (split_nl s) - 1"
  by (induction s) (auto simp: split_nl_not_Nil split: list.splits)

lemma cell_char_eq: "cell_char b = (if b then CHR ''*'' else CHR '' '')"
  by (simp add: cell_char_def population_def)

lemma cell_char_not_newline: "cell_char b \<noteq> newline"
  by (simp add: cell_char_eq newline_def)

section \<open>Facts about the generated grid\<close>

lemma random_choice_nat:
  "random_choice g population (PyInt (int r)) (PyInt (int c)) =
     Inr (map (\<lambda>i. map (\<lambda>j. population ! (if g (i * c + j) then 0 else 1)) [0..<c]) [0..<r])"
  by (simp add: random_choice_def)

lemma row_join:
  "py_join [] (map (\<lambda>j. population ! (if g (k + j) then 0 else 1)) js) =
   map (\<lambda>j. cell_char (g (k + j))) js"
  by (induction js) (simp_all add: py_join_empty_sep population_def cell_char_def)

lemma grid_str_generated:
  assumes "random_choice g population (PyInt (int r)) (PyInt (int c)) = Inr grid"
  shows "grid_str grid =
         py_join [newline] (map (\<lambda>i. map (\<lambda>j. cell_char (g (i * c + j))) [0..<c]) [0..<r])"
proof -
  from assms
  have "grid = map (\<lambda>i. map (\<lambda>j. population ! (if g (i * c + j) then 0 else 1)) [0..<c]) [0..<r]"
    by (simp add: random_choice_nat)
  then show ?thesis
    by (simp add: grid_str_def comp_def row_join)
qed

lemma lines_generated:
  assumes "random_choice g population (PyInt (int r)) (PyInt (int c)) = Inr grid" and "0 < r"
  shows "split_nl (grid_str grid) =
         map (\<lambda>i. map (\<lambda>j. cell_char (g (i * c + j))) [0..<c]) [0..<r]"
proof -
  let ?rows = "map (\<lambda>i. map (\<lambda>j. cell_char (g (i * c + j))) [0..<c]) [0..<r]"
  have "?rows \<noteq> []" using \<open>0 < r\<close> by simp
  moreover have "\<forall>l \<in> set ?rows. newline \<notin> set l"
    by (auto simp: cell_char_eq newline_def)
  ultimately have "split_nl (py_join [newline] ?rows) = ?rows"
    by (rule split_nl_py_join)
  with grid_str_generated [OF assms(1)] show ?thesis by simp
qed

section \<open>Facts about \<^verbatim>\<open>main\<close>\<close>

text \<open>The four ways through \<^verbatim>\<open>main\<close>, by the length of \<^verbatim>\<open>sys.argv\<close>.\<close>

lemma main_usage:
  "4 < length argv \<Longrightarrow> main g argv w = (SystemExit 1, py_print usage w)"
  by (simp add: main_def)

lemma main_length_4:
  "length argv = 4 \<Longrightarrow> main g argv w = (Raised ValueError, w)"
  by (simp add: main_def unpack2_not_two)

lemma main_length_3:
  assumes "length argv = 3"
  shows "main g argv w = (Raised TypeError, w)"
proof -
  from assms obtain prog rows cols where "argv = [prog, rows, cols]"
    by (auto simp: length_Suc_conv numeral_3_eq_3)
  then show ?thesis
    by (simp add: main_def unpack2_def random_choice_def)
qed

lemma main_short:
  "length argv < 3 \<Longrightarrow> main g argv w = (Raised ValueError, w)"
  by (simp add: main_def unpack2_not_two)

lemma main_cases:
  "main g argv w = (SystemExit 1, py_print usage w) \<or>
   main g argv w = (Raised ValueError, w) \<or>
   main g argv w = (Raised TypeError, w)"
proof -
  consider "4 < length argv" | "length argv = 4" | "length argv = 3" | "length argv < 3"
    by linarith
  then show ?thesis
    by cases (simp_all add: main_usage main_length_4 main_length_3 main_short)
qed

text \<open>The three ways through the write, by what the environment allows.\<close>

lemma write_output_cases:
  "write_output grid w =
     (if \<not> open_ok w file_path then (Raised OSError, w)
      else if \<not> write_ok w file_path
        then (Raised OSError, w\<lparr>files := (files w)(file_path \<mapsto> [])\<rparr>)
      else (Returned, w\<lparr>files := (files w)(file_path \<mapsto> grid_str grid)\<rparr>))"
  by (simp add: write_output_def with_open_w_def py_open_w_def py_write_def py_close_def)

section \<open>Valid dimensions\<close>

text \<open>
  C1. The claim is that two valid dimensions on the command line give a file of
  \<open>rows\<close> lines of \<open>cols\<close> characters. The code hands the two strings to
  \<^verbatim>\<open>np.random.choice\<close> as they are: at \<^verbatim>\<open>./generate 3 5\<close>, \<^verbatim>\<open>main\<close> ends in
  \<^verbatim>\<open>TypeError\<close> and the world is as it was, so no file is written.
\<close>

theorem main_valid_dimensions_type_error:
  "main g [''./generate'', ''3'', ''5''] w = (Raised TypeError, w)"
  by (simp add: main_def unpack2_def random_choice_def)

section \<open>Too many arguments\<close>

text \<open>
  C2. The claim is that three or more positional values print the usage message.
  The guard compares \<^verbatim>\<open>len(sys.argv)\<close> with 4, so three positional values pass it:
  at \<^verbatim>\<open>./generate 3 5 7\<close> the unpacking raises \<^verbatim>\<open>ValueError\<close> and nothing was
  printed; with a fourth value the usage message is printed and \<^verbatim>\<open>exit(1)\<close> called.
\<close>

theorem main_three_values_no_usage:
  "main g [''./generate'', ''3'', ''5'', ''7''] w = (Raised ValueError, w) \<and>
   stdout (snd (main g [''./generate'', ''3'', ''5'', ''7''] w)) = stdout w \<and>
   main g [''./generate'', ''3'', ''5'', ''7'', ''9''] w = (SystemExit 1, w\<lparr>stdout := stdout w @ [usage]\<rparr>)"
  by (simp add: main_def unpack2_def py_print_def)

section \<open>Exactly two arguments\<close>



section \<open>Serialization\<close>

text \<open>
  C4. Take the grid that the constructor returns for integer sizes \<open>r\<close> and \<open>c\<close>, and
  read \<open>grid_str\<close> of it back as lines. There are \<open>r\<close> lines (when \<open>r > 0\<close>); line \<open>i\<close>
  has \<open>c\<close> characters, and its character \<open>j\<close> is \<^verbatim>\<open>*\<close> when the cell is ALIVE
  (its draw \<open>g (i * c + j)\<close> picked the first element of the population) and a
  space when it is DEAD; the text holds \<open>r - 1\<close> newlines, one between two rows;
  and with at least one row and one column the text does not end with a newline.
\<close>

theorem grid_str_serialization:
  assumes "random_choice g population (PyInt (int r)) (PyInt (int c)) = Inr grid"
  shows "(0 < r \<longrightarrow> length (split_nl (grid_str grid)) = r) \<and>
         (\<forall>i < r. length (split_nl (grid_str grid) ! i) = c \<and>
            (\<forall>j < c. split_nl (grid_str grid) ! i ! j =
                        (if g (i * c + j) then CHR ''*'' else CHR '' ''))) \<and>
         length (filter (\<lambda>x. x = newline) (grid_str grid)) = r - 1 \<and>
         (0 < r \<and> 0 < c \<longrightarrow> grid_str grid \<noteq> [] \<and> last (grid_str grid) \<noteq> newline)"
proof (cases "0 < r")
  case False
  with assms have "grid = []" by (simp add: random_choice_nat)
  with False show ?thesis by (simp add: grid_str_def)
next
  case True
  let ?rows = "map (\<lambda>i. map (\<lambda>j. cell_char (g (i * c + j))) [0..<c]) [0..<r]"
  have lines: "split_nl (grid_str grid) = ?rows"
    using assms True by (rule lines_generated)
  have len: "length (split_nl (grid_str grid)) = r"
    by (simp add: lines)
  have cells: "\<forall>i < r. length (split_nl (grid_str grid) ! i) = c \<and>
      (\<forall>j < c. split_nl (grid_str grid) ! i ! j =
                  (if g (i * c + j) then CHR ''*'' else CHR '' ''))"
    by (simp add: lines cell_char_eq)
  have count: "length (filter (\<lambda>x. x = newline) (grid_str grid)) = r - 1"
    by (simp add: count_newlines len)
  have "grid_str grid \<noteq> [] \<and> last (grid_str grid) \<noteq> newline" if "0 < c"
  proof -
    have "?rows \<noteq> []" using True by simp
    moreover have "last ?rows \<noteq> []" using True that by (simp add: last_map)
    ultimately have "py_join [newline] ?rows \<noteq> [] \<and>
        last (py_join [newline] ?rows) = last (last ?rows)"
      by (rule py_join_last)
    moreover have "last (last ?rows) \<noteq> newline"
      using True that by (simp add: last_map cell_char_not_newline)
    ultimately show ?thesis
      by (simp add: grid_str_generated [OF assms])
  qed
  with len cells count show ?thesis by simp
qed

theorem grid_str_serialization_witness:
  "random_choice rng0 population (PyInt (int 2)) (PyInt (int 3))
     = Inr [['' '', '' '', '' ''], ['' '', ''*'', '' '']] \<and>
   (0::nat) < 2 \<and> (0::nat) < 3 \<and> (1::nat) < 2 \<and> (1::nat) < 3 \<and>
   length (split_nl (grid_str [['' '', '' '', '' ''], ['' '', ''*'', '' '']])) = 2 \<and>
   length (split_nl (grid_str [['' '', '' '', '' ''], ['' '', ''*'', '' '']]) ! 1) = 3 \<and>
   split_nl (grid_str [['' '', '' '', '' ''], ['' '', ''*'', '' '']]) ! 1 ! 1 = CHR ''*'' \<and>
   length (filter (\<lambda>x. x = newline) (grid_str [['' '', '' '', '' ''], ['' '', ''*'', '' '']])) = 1 \<and>
   last (grid_str [['' '', '' '', '' ''], ['' '', ''*'', '' '']]) \<noteq> newline"
proof -
  have gen: "random_choice rng0 population (PyInt (int 2)) (PyInt (int 3))
               = Inr [['' '', '' '', '' ''], ['' '', ''*'', '' '']]"
    by (simp add: random_choice_def population_def rng0_def upt_rec)
  have "rng0 (1 * 3 + 1)" by (simp add: rng0_def)
  with grid_str_serialization [OF gen] gen show ?thesis by simp
qed

section \<open>The output file\<close>



section \<open>Invalid dimensions\<close>




section \<open>Exit status\<close>

text \<open>
  The claim C8 as the spec has it, status 1 exactly when too many arguments are
  supplied, fails at \<^verbatim>\<open>./generate\<close> with no argument: the status is 1 and the
  arguments are not too many.
\<close>

theorem exit_status_counterexample:
  "\<not> (fst (run_script rng0 [''./generate''] world0) = 1 \<longleftrightarrow>
      2 < length (drop 1 [''./generate'']))"
  by (simp add: run_script_def interp_exit_def main_def unpack2_def)

text \<open>
  C8, amended. The exit status is 1 whenever more than two positional arguments
  are supplied, and also whenever fewer than two are; it is 0 when the write of
  the grid, once reached, goes through: \<^verbatim>\<open>main\<close> then returns.
\<close>

theorem exit_status_amended:
  "(2 < length (drop 1 argv) \<longrightarrow> fst (run_script g argv w) = 1) \<and>
   (length (drop 1 argv) < 2 \<longrightarrow> fst (run_script g argv w) = 1) \<and>
   (open_ok w file_path \<and> write_ok w file_path \<longrightarrow>
      fst (write_output grid w) = Returned \<and> fst (interp_exit (write_output grid w)) = 0)"
proof -
  have "fst (run_script g argv w) = 1" if "2 < length (drop 1 argv)"
  proof -
    from that consider "4 < length argv" | "length argv = 4" by fastforce
    then show ?thesis
      by cases (simp_all add: run_script_def interp_exit_def main_usage main_length_4)
  qed
  moreover have "fst (run_script g argv w) = 1" if "length (drop 1 argv) < 2"
  proof -
    from that have "length argv < 3" by simp
    then show ?thesis
      by (simp add: run_script_def interp_exit_def main_short)
  qed
  ultimately show ?thesis
    by (simp add: write_output_cases interp_exit_def)
qed

theorem exit_status_amended_witness:
  "2 < length (drop 1 [''./generate'', ''3'', ''5'', ''7'', ''9'']) \<and>
   fst (run_script rng0 [''./generate'', ''3'', ''5'', ''7'', ''9''] world0) = 1 \<and>
   length (drop 1 [''./generate'', ''3'']) < 2 \<and>
   fst (run_script rng0 [''./generate'', ''3''] world0) = 1 \<and>
   open_ok world0 file_path \<and> write_ok world0 file_path \<and>
   fst (interp_exit (write_output [[''*'']] world0)) = 0"
  using exit_status_amended [of "[''./generate'', ''3'', ''5'', ''7'', ''9'']" rng0 world0 "[[''*'']]"]
        exit_status_amended [of "[''./generate'', ''3'']" rng0 world0 "[[''*'']]"]
  by (simp add: world0_def)

section \<open>The file handle\<close>

text \<open>
  C9. The handle on \<^verbatim>\<open>./life.txt\<close> exists inside the \<^verbatim>\<open>with\<close> block only. Opening
  adds it to the open handles; after the block the open handles are those from
  before, whether the write went through or raised \<^verbatim>\<open>OSError\<close>; and after any run
  of \<^verbatim>\<open>main\<close> the open handles are those from before.
\<close>

theorem handle_released:
  "handles (snd (write_output grid w)) = handles w \<and>
   (open_ok w file_path \<and> \<not> write_ok w file_path \<longrightarrow>
      fst (write_output grid w) = Raised OSError) \<and>
   (open_ok w file_path \<longrightarrow>
      (\<exists>w1. py_open_w file_path w = Inr w1 \<and> handles w1 = file_path # handles w)) \<and>
   handles (snd (main g argv w)) = handles w"
proof -
  have "handles (snd (main g argv w)) = handles w"
    using main_cases [of g argv w] by (auto simp: py_print_def)
  then show ?thesis by (simp add: write_output_cases py_open_w_def)
qed

theorem handle_released_witness:
  "open_ok (world0\<lparr>write_ok := (\<lambda>_. False)\<rparr>) file_path \<and>
   \<not> write_ok (world0\<lparr>write_ok := (\<lambda>_. False)\<rparr>) file_path \<and>
   fst (write_output [[''*'']] (world0\<lparr>write_ok := (\<lambda>_. False)\<rparr>)) = Raised OSError \<and>
   handles (snd (write_output [[''*'']] (world0\<lparr>write_ok := (\<lambda>_. False)\<rparr>))) = []"
  using handle_released [of "[[''*'']]" "world0\<lparr>write_ok := (\<lambda>_. False)\<rparr>" rng0 "[]"]
  by (simp add: world0_def)

section \<open>Too few arguments\<close>

text \<open>
  C10. With fewer than two positional arguments (\<^verbatim>\<open>sys.argv\<close> of length at most 2)
  the unpacking raises before anything is opened: \<^verbatim>\<open>main\<close> ends in \<^verbatim>\<open>ValueError\<close>
  and the world, \<^verbatim>\<open>./life.txt\<close> included, is as it was.
\<close>

theorem main_too_few_arguments:
  assumes "length argv < 3"
  shows "main g argv w = (Raised ValueError, w) \<and>
         files (snd (main g argv w)) file_path = files w file_path \<and>
         handles (snd (main g argv w)) = handles w"
  using assms by (simp add: main_short)

theorem main_too_few_arguments_witness:
  "length [''./generate'', ''3''] < 3 \<and>
   main rng0 [''./generate'', ''3''] world0 = (Raised ValueError, world0) \<and>
   length [''./generate''] < 3 \<and>
   files (snd (main rng0 [''./generate''] world0)) file_path = None"
  using main_too_few_arguments [of "[''./generate'', ''3'']" rng0 world0]
        main_too_few_arguments [of "[''./generate'']" rng0 world0]
  by (simp add: world0_def)

end
